theory Spec2Isabelle
  imports Complex_Main
begin

section \<open>Calendar dates\<close>

text \<open>
  A \<open>datetime\<close> or a pandas \<open>Timestamp\<close> at midnight: only the calendar fields are
  read by the program.
\<close>

datatype date = Date (year: int) (month: int) (day: int)

definition is_leap :: "int \<Rightarrow> bool" where
  "is_leap y = (y mod 4 = 0 \<and> (y mod 100 \<noteq> 0 \<or> y mod 400 = 0))"

definition days_in_month :: "int \<Rightarrow> int \<Rightarrow> int" where
  "days_in_month y m =
     (if m = 2 then (if is_leap y then 29 else 28)
      else if m = 4 \<or> m = 6 \<or> m = 9 \<or> m = 11 then 30 else 31)"

definition days_before_month :: "int \<Rightarrow> int \<Rightarrow> int" where
  "days_before_month y m = sum_list (map (days_in_month y) [1..m - 1])"

text \<open>\<open>timetuple().tm_yday\<close> and \<open>.dt.dayofyear\<close>: 1 for the first of January.\<close>

definition dayofyear :: "date \<Rightarrow> int" where
  "dayofyear d = days_before_month (year d) (month d) + day d"

section \<open>Exceptions\<close>

text \<open>The exceptions the modelled code can meet; both are subclasses of \<open>Exception\<close>.\<close>

datatype exn = ValueError | AttributeError

section \<open>\<open>datetime.strptime(s, '%Y-%m-%d')\<close>\<close>

text \<open>
  The library compiles the format to the regular expression
  \<open>(\d\d\d\d)-(1[0-2]|0[1-9]|[1-9])-(3[01]|[12]\d|0[1-9]|[1-9]| [1-9])\<close>, matches it at
  the start of the string, raises \<open>ValueError\<close> when it does not match or when text
  remains after the match, and then builds the date, which raises \<open>ValueError\<close> for
  year 0 and for a day the month does not have. The alternatives of a group are tried in
  order; the month is followed by a literal \<open>-\<close>, so its first matching alternative is the
  only one that can be followed by it. Strings are byte strings here, so the digits are
  the ASCII digits.
\<close>

definition digit_val :: "char \<Rightarrow> int" where
  "digit_val c = (case map_of (zip ''0123456789'' [0, 1, 2, 3, 4, 5, 6, 7, 8, 9]) c of
                    Some v \<Rightarrow> v | None \<Rightarrow> 0)"

definition is_digit :: "char \<Rightarrow> bool" where
  "is_digit c = (c \<in> set ''0123456789'')"

definition match2 :: "string \<Rightarrow> string \<Rightarrow> string \<Rightarrow> (int \<times> string) option" where
  "match2 cls1 cls2 s =
     (case s of
        a # b # rest \<Rightarrow>
          if a \<in> set cls1 \<and> b \<in> set cls2 then Some (10 * digit_val a + digit_val b, rest)
          else None
      | _ \<Rightarrow> None)"

definition match1 :: "string \<Rightarrow> string \<Rightarrow> (int \<times> string) option" where
  "match1 cls s =
     (case s of
        a # rest \<Rightarrow> if a \<in> set cls then Some (digit_val a, rest) else None
      | _ \<Rightarrow> None)"

definition orelse :: "'a option \<Rightarrow> 'a option \<Rightarrow> 'a option" where
  "orelse p q = (case p of Some r \<Rightarrow> Some r | None \<Rightarrow> q)"

definition re_Y :: "string \<Rightarrow> (int \<times> string) option" where
  "re_Y s =
     (case s of
        a # b # c # d # rest \<Rightarrow>
          if is_digit a \<and> is_digit b \<and> is_digit c \<and> is_digit d
          then Some (1000 * digit_val a + 100 * digit_val b + 10 * digit_val c + digit_val d, rest)
          else None
      | _ \<Rightarrow> None)"

definition re_m :: "string \<Rightarrow> (int \<times> string) option" where
  "re_m s =
     orelse (match2 ''1'' ''012'' s)
    (orelse (match2 ''0'' ''123456789'' s)
            (match1 ''123456789'' s))"

definition re_d :: "string \<Rightarrow> (int \<times> string) option" where
  "re_d s =
     orelse (match2 ''3'' ''01'' s)
    (orelse (match2 ''12'' ''0123456789'' s)
    (orelse (match2 ''0'' ''123456789'' s)
    (orelse (match1 ''123456789'' s)
            (match2 '' '' ''123456789'' s))))"

definition expect_dash :: "string \<Rightarrow> string option" where
  "expect_dash s = (case s of c # rest \<Rightarrow> if c = CHR ''-'' then Some rest else None | [] \<Rightarrow> None)"

definition strptime :: "string \<Rightarrow> exn + date" where
  "strptime s =
     (case re_Y s of None \<Rightarrow> Inl ValueError
      | Some (y, s1) \<Rightarrow>
     (case expect_dash s1 of None \<Rightarrow> Inl ValueError
      | Some s2 \<Rightarrow>
     (case re_m s2 of None \<Rightarrow> Inl ValueError
      | Some (m, s3) \<Rightarrow>
     (case expect_dash s3 of None \<Rightarrow> Inl ValueError
      | Some s4 \<Rightarrow>
     (case re_d s4 of None \<Rightarrow> Inl ValueError
      | Some (d, s5) \<Rightarrow>
          if s5 \<noteq> [] then Inl ValueError
          else if y < 1 then Inl ValueError
          else if d > days_in_month y m then Inl ValueError
          else Inr (Date y m d))))))"

section \<open>Floating-point results\<close>

text \<open>
  The numbers of the program are IEEE doubles. They are modelled by the reals, with one
  extra value for the not-a-number that the mean of an empty pandas Series is. Rounding
  error is outside the model.
\<close>

datatype pyfloat = Fl real | NaN

text \<open>\<open>Series.mean()\<close> of a boolean Series: the fraction of \<open>True\<close>, not-a-number when empty.\<close>

definition mean :: "bool list \<Rightarrow> pyfloat" where
  "mean bs = (if bs = [] then NaN
              else Fl (real (length (filter (\<lambda>b. b) bs)) / real (length bs)))"

definition py_mul :: "pyfloat \<Rightarrow> real \<Rightarrow> pyfloat" where
  "py_mul x c = (case x of Fl r \<Rightarrow> Fl (r * c) | NaN \<Rightarrow> NaN)"

text \<open>Round to the nearest integer, ties to the even one (\<open>numpy.rint\<close>).\<close>

definition rint :: "real \<Rightarrow> int" where
  "rint x =
     (let f = \<lfloor>x\<rfloor>; r = x - of_int f
      in if r < 1 / 2 then f else if r > 1 / 2 then f + 1
         else if even f then f else f + 1)"

text \<open>\<open>round(x, 1)\<close> on a numpy double: scale by ten, \<open>rint\<close>, scale back.\<close>

definition round1 :: "pyfloat \<Rightarrow> pyfloat" where
  "round1 x = (case x of Fl r \<Rightarrow> Fl (real_of_int (rint (r * 10)) / 10) | NaN \<Rightarrow> NaN)"

section \<open>The processor and its store\<close>

text \<open>
  A DataFrame of the store has a \<open>date\<close> column and one value column; it is the list of
  its rows. \<open>historical_data\<close> is the dictionary from variable name to DataFrame.
\<close>

type_synonym series = "(date \<times> real) list"

record processor =
  data_directory :: string
  historical_data :: "string \<rightharpoonup> series"
  data_loaded :: bool

type_synonym probabilities = "string \<rightharpoonup> pyfloat"

section \<open>\<open>calculate_probabilities\<close>\<close>

text \<open>
  The boolean-mask selection
  \<open>df[(df['date'].dt.dayofyear >= day_of_year - 7) & (df['date'].dt.dayofyear <= day_of_year + 7)]\<close>,
  which the source writes out for every variable.
\<close>

definition same_period :: "int \<Rightarrow> series \<Rightarrow> series" where
  "same_period day_of_year df =
     filter (\<lambda>row. dayofyear (fst row) \<ge> day_of_year - 7 \<and>
                   dayofyear (fst row) \<le> day_of_year + 7) df"

text \<open>
  \<open>pd.merge(left, right, on='date')\<close>: the inner join, one row for every pair of a left
  and a right row with the same date, in the order of the left rows.
  On a join without rows,
  \<open>DataFrame.apply(..., axis=1)\<close> returns an empty Series (pandas 1.5 and later), so the
  \<open>heat_index\<close> column is empty, nothing is raised, and the mean that follows is the
  not-a-number.
\<close>

definition merge_on_date :: "series \<Rightarrow> series \<Rightarrow> (date \<times> real \<times> real) list" where
  "merge_on_date left right =
     concat (map (\<lambda>(d, t). map (\<lambda>(d', h). (d, t, h)) (filter (\<lambda>(d', h). d' = d) right)) left)"

definition calculate_heat_index :: "real \<Rightarrow> real \<Rightarrow> real" where
  "calculate_heat_index temp humidity = temp + 0.05 * (humidity - 50)"

definition expected_keys :: "string list" where
  "expected_keys = [''hot'', ''cold'', ''wet'', ''windy'', ''uncomfortable'']"

definition default_probabilities :: probabilities where
  "default_probabilities =
     [''hot'' \<mapsto> Fl 0, ''cold'' \<mapsto> Fl 0, ''wet'' \<mapsto> Fl 0, ''windy'' \<mapsto> Fl 0,
      ''uncomfortable'' \<mapsto> Fl 0]"

text \<open>The loop \<open>for key in expected_keys: if key not in probabilities: probabilities[key] = 0.0\<close>.\<close>

fun ensure_keys :: "string list \<Rightarrow> probabilities \<Rightarrow> probabilities" where
  "ensure_keys [] p = p"
| "ensure_keys (k # ks) p = ensure_keys ks (if k \<in> dom p then p else p(k \<mapsto> Fl 0))"

definition temperature_step :: "processor \<Rightarrow> int \<Rightarrow> probabilities \<Rightarrow> probabilities" where
  "temperature_step self day_of_year p =
     (case historical_data self ''temperature'' of
        None \<Rightarrow> p
      | Some temp_data \<Rightarrow>
          let same_period_data = same_period day_of_year temp_data
          in if length same_period_data > 0
             then let hot_prob = py_mul (mean (map (\<lambda>row. snd row > 90) same_period_data)) 100;
                      cold_prob = py_mul (mean (map (\<lambda>row. snd row < 32) same_period_data)) 100
                  in p(''hot'' \<mapsto> round1 hot_prob, ''cold'' \<mapsto> round1 cold_prob)
             else p)"

definition precipitation_step :: "processor \<Rightarrow> int \<Rightarrow> probabilities \<Rightarrow> probabilities" where
  "precipitation_step self day_of_year p =
     (case historical_data self ''precipitation'' of
        None \<Rightarrow> p
      | Some precip_data \<Rightarrow>
          let same_period_precip = same_period day_of_year precip_data
          in if length same_period_precip > 0
             then let wet_prob = py_mul (mean (map (\<lambda>row. snd row > 0.5) same_period_precip)) 100
                  in p(''wet'' \<mapsto> round1 wet_prob)
             else p)"

definition wind_step :: "processor \<Rightarrow> int \<Rightarrow> probabilities \<Rightarrow> probabilities" where
  "wind_step self day_of_year p =
     (case historical_data self ''wind'' of
        None \<Rightarrow> p
      | Some wind_data \<Rightarrow>
          let same_period_wind = same_period day_of_year wind_data
          in if length same_period_wind > 0
             then let windy_prob = py_mul (mean (map (\<lambda>row. snd row > 15) same_period_wind)) 100
                  in p(''windy'' \<mapsto> round1 windy_prob)
             else p)"

definition comfort_step :: "processor \<Rightarrow> int \<Rightarrow> probabilities \<Rightarrow> probabilities" where
  "comfort_step self day_of_year p =
     (case (historical_data self ''temperature'', historical_data self ''humidity'') of
        (Some temp_data, Some humidity_data) \<Rightarrow>
          let same_period_temp = same_period day_of_year temp_data;
              same_period_humidity = same_period day_of_year humidity_data
          in if length same_period_temp > 0 \<and> length same_period_humidity > 0
             then let merged_data = merge_on_date same_period_temp same_period_humidity;
                      heat_index = map (\<lambda>(d, t, h). calculate_heat_index t h) merged_data;
                      uncomfortable_prob = py_mul (mean (map (\<lambda>hi. hi > 85) heat_index)) 100
                  in p(''uncomfortable'' \<mapsto> round1 uncomfortable_prob)
             else p
      | _ \<Rightarrow> p)"

text \<open>The body of the \<open>try\<close> block: \<open>Inl\<close> is an exception raised inside it.\<close>

definition calculate_probabilities_try ::
  "processor \<Rightarrow> real \<Rightarrow> real \<Rightarrow> string \<Rightarrow> exn + probabilities" where
  "calculate_probabilities_try self lat lng target_date =
     (case strptime target_date of
        Inl e \<Rightarrow> Inl e
      | Inr target_dt \<Rightarrow>
          let day_of_year = dayofyear target_dt;
              p0 = Map.empty;
              p1 = temperature_step self day_of_year p0;
              p2 = precipitation_step self day_of_year p1;
              p3 = wind_step self day_of_year p2;
              p4 = comfort_step self day_of_year p3
          in Inr (ensure_keys expected_keys p4))"

text \<open>The whole method: \<open>except Exception\<close> returns the default dictionary.\<close>

definition calculate_probabilities ::
  "processor \<Rightarrow> real \<Rightarrow> real \<Rightarrow> string \<Rightarrow> probabilities" where
  "calculate_probabilities self lat lng target_date =
     (case calculate_probabilities_try self lat lng target_date of
        Inl e \<Rightarrow> default_probabilities
      | Inr p \<Rightarrow> p)"

section \<open>\<open>get_historical_trends\<close>\<close>

text \<open>\<open>str\<close> of an integer, as the f-string \<open>f"{year}-07-15"\<close> formats it.\<close>

fun str_nat :: "nat \<Rightarrow> string" where
  "str_nat n =
     (if n < 10 then [''0123456789'' ! n]
      else str_nat (n div 10) @ [''0123456789'' ! (n mod 10)])"

definition str_int :: "int \<Rightarrow> string" where
  "str_int i = (if i < 0 then CHR ''-'' # str_nat (nat (- i)) else str_nat (nat i))"

record trend =
  years :: "int list"
  hot_probabilities :: "pyfloat list"
  wet_probabilities :: "pyfloat list"

text \<open>\<open>probs.get(key, 0)\<close>.\<close>

definition get_or_zero :: "probabilities \<Rightarrow> string \<Rightarrow> pyfloat" where
  "get_or_zero probs key = (case probs key of Some v \<Rightarrow> v | None \<Rightarrow> Fl 0)"

text \<open>The loop over the years, appending to \<open>hot_trend\<close> and \<open>wet_trend\<close>.\<close>

fun trend_loop ::
  "processor \<Rightarrow> real \<Rightarrow> real \<Rightarrow> int list \<Rightarrow> pyfloat list \<Rightarrow> pyfloat list
     \<Rightarrow> pyfloat list \<times> pyfloat list" where
  "trend_loop self lat lng [] hot_trend wet_trend = (hot_trend, wet_trend)"
| "trend_loop self lat lng (y # ys) hot_trend wet_trend =
     (let sample_date = str_int y @ ''-07-15'';
          probs = calculate_probabilities self lat lng sample_date
      in trend_loop self lat lng ys
           (hot_trend @ [get_or_zero probs ''hot''])
           (wet_trend @ [get_or_zero probs ''wet'']))"

text \<open>
  The body of the \<open>try\<close> block. No statement of it raises (\<open>calculate_probabilities\<close>
  catches its own exceptions), so it always ends in \<open>Inr\<close>.
\<close>

definition get_historical_trends_try :: "processor \<Rightarrow> real \<Rightarrow> real \<Rightarrow> exn + trend" where
  "get_historical_trends_try self lat lng =
     (let ys = [2015..2024];
          (hot_trend, wet_trend) = trend_loop self lat lng ys [] []
      in Inr \<lparr>years = ys, hot_probabilities = hot_trend, wet_probabilities = wet_trend\<rparr>)"

section \<open>The random number generator\<close>

text \<open>
  \<open>numpy.random\<close> is a library with a hidden state. Its samplers are a parameter of the
  model: each takes the state and returns the draw and the next state.
\<close>

record 'g rng =
  np_normal :: "real \<Rightarrow> real \<Rightarrow> 'g \<Rightarrow> real \<times> 'g"
  np_exponential :: "real \<Rightarrow> 'g \<Rightarrow> real \<times> 'g"
  np_weibull :: "real \<Rightarrow> 'g \<Rightarrow> real \<times> 'g"
  np_random :: "'g \<Rightarrow> real \<times> 'g"
  np_randint :: "int \<Rightarrow> int \<Rightarrow> 'g \<Rightarrow> int \<times> 'g"

text \<open>\<open>[np.random.randint(lo, hi) for _ in years]\<close>.\<close>

fun randint_list :: "'g rng \<Rightarrow> int \<Rightarrow> int \<Rightarrow> 'a list \<Rightarrow> 'g \<Rightarrow> pyfloat list \<times> 'g" where
  "randint_list R lo hi [] g = ([], g)"
| "randint_list R lo hi (y # ys) g =
     (let (v, g1) = np_randint R lo hi g;
          (vs, g2) = randint_list R lo hi ys g1
      in (Fl (real_of_int v) # vs, g2))"

definition get_historical_trends ::
  "'g rng \<Rightarrow> processor \<Rightarrow> real \<Rightarrow> real \<Rightarrow> 'g \<Rightarrow> trend \<times> 'g" where
  "get_historical_trends R self lat lng g =
     (case get_historical_trends_try self lat lng of
        Inr t \<Rightarrow> (t, g)
      | Inl e \<Rightarrow>
          let ys = [2015..2024];
              (hot, g1) = randint_list R 10 50 ys g;
              (wet, g2) = randint_list R 10 40 ys g1
          in (\<lparr>years = ys, hot_probabilities = hot, wet_probabilities = wet\<rparr>, g2))"

section \<open>The synthetic series generators\<close>

text \<open>
  \<open>pd.date_range(start='Y1-01-01', end='Y2-12-31', freq='D')\<close>: every day of the years
  \<open>Y1\<close> to \<open>Y2\<close>, in order.
\<close>

definition year_days :: "int \<Rightarrow> int \<Rightarrow> date list" where
  "year_days y1 y2 =
     concat (map (\<lambda>y. concat (map (\<lambda>m. map (\<lambda>d. Date y m d) [1..days_in_month y m]) [1..12]))
                 [y1..y2])"

definition set_variable :: "processor \<Rightarrow> string \<Rightarrow> series \<Rightarrow> processor" where
  "set_variable self name df = self\<lparr>historical_data := (historical_data self)(name \<mapsto> df)\<rparr>"

subsection \<open>The enhanced profile\<close>

fun enhanced_temperature :: "'g rng \<Rightarrow> date list \<Rightarrow> 'g \<Rightarrow> series \<times> 'g" where
  "enhanced_temperature R [] g = ([], g)"
| "enhanced_temperature R (date # dates) g =
     (let day_of_year = dayofyear date;
          base_temp = 50 + 25 * sin (2 * pi * real_of_int (day_of_year - 81) / 365);
          year_factor = real_of_int (year date - 2008) * 0.05;
          (noise, g1) = np_normal R 0 8 g;
          temp = base_temp + noise + year_factor;
          (rest, g2) = enhanced_temperature R dates g1
      in ((date, temp) # rest, g2))"

fun enhanced_precipitation :: "'g rng \<Rightarrow> date list \<Rightarrow> 'g \<Rightarrow> series \<times> 'g" where
  "enhanced_precipitation R [] g = ([], g)"
| "enhanced_precipitation R (date # dates) g =
     (let day_of_year = dayofyear date;
          (base_precip, g1) =
            (if 60 \<le> day_of_year \<and> day_of_year \<le> 150 then np_exponential R 0.15 g
             else if 151 \<le> day_of_year \<and> day_of_year \<le> 240 then np_exponential R 0.25 g
             else if 241 \<le> day_of_year \<and> day_of_year \<le> 330 then np_exponential R 0.18 g
             else np_exponential R 0.12 g);
          (u, g2) = np_random R g1;
          (precip, g3) =
            (if u < 0.02
             then (let (heavy, g') = np_exponential R 0.5 g2 in (base_precip + heavy, g'))
             else (base_precip, g2));
          (rest, g4) = enhanced_precipitation R dates g3
      in ((date, precip) # rest, g4))"

fun enhanced_wind :: "'g rng \<Rightarrow> date list \<Rightarrow> 'g \<Rightarrow> series \<times> 'g" where
  "enhanced_wind R [] g = ([], g)"
| "enhanced_wind R (date # dates) g =
     (let day_of_year = dayofyear date;
          (base_wind, g1) =
            (if day_of_year \<le> 90 \<or> day_of_year \<ge> 300
             then (let (w, g') = np_weibull R 1.8 g in (w * 12, g'))
             else if 91 \<le> day_of_year \<and> day_of_year \<le> 180
             then (let (w, g') = np_weibull R 1.6 g in (w * 10, g'))
             else (let (w, g') = np_weibull R 1.5 g in (w * 8, g')));
          (rest, g2) = enhanced_wind R dates g1
      in ((date, base_wind) # rest, g2))"

fun enhanced_humidity :: "'g rng \<Rightarrow> date list \<Rightarrow> 'g \<Rightarrow> series \<times> 'g" where
  "enhanced_humidity R [] g = ([], g)"
| "enhanced_humidity R (date # dates) g =
     (let day_of_year = dayofyear date;
          (base_humidity, g1) =
            (if 150 \<le> day_of_year \<and> day_of_year \<le> 240 then np_normal R 75 8 g
             else np_normal R 65 12 g);
          clamped = max 15 (min 95 base_humidity);
          (rest, g2) = enhanced_humidity R dates g1
      in ((date, clamped) # rest, g2))"

definition generate_enhanced_sample_data :: "'g rng \<Rightarrow> processor \<Rightarrow> 'g \<Rightarrow> processor \<times> 'g" where
  "generate_enhanced_sample_data R self g =
     (let dates = year_days 2008 2023;
          (temp_data, g1) = enhanced_temperature R dates g;
          self1 = set_variable self ''temperature'' temp_data;
          (precip_data, g2) = enhanced_precipitation R dates g1;
          self2 = set_variable self1 ''precipitation'' precip_data;
          (wind_data, g3) = enhanced_wind R dates g2;
          self3 = set_variable self2 ''wind'' wind_data;
          (humidity_data, g4) = enhanced_humidity R dates g3;
          self4 = set_variable self3 ''humidity'' humidity_data
      in (self4, g4))"

subsection \<open>The legacy profile\<close>

fun legacy_temperature :: "'g rng \<Rightarrow> date list \<Rightarrow> 'g \<Rightarrow> series \<times> 'g" where
  "legacy_temperature R [] g = ([], g)"
| "legacy_temperature R (date # dates) g =
     (let base_temp = 50 + 30 * sin (2 * pi * real_of_int (dayofyear date - 81) / 365);
          (noise, g1) = np_normal R 0 10 g;
          temp = base_temp + noise;
          (rest, g2) = legacy_temperature R dates g1
      in ((date, temp) # rest, g2))"

fun legacy_precipitation :: "'g rng \<Rightarrow> date list \<Rightarrow> 'g \<Rightarrow> series \<times> 'g" where
  "legacy_precipitation R [] g = ([], g)"
| "legacy_precipitation R (date # dates) g =
     (let (precip, g1) =
            (if month date \<in> set [3, 4, 5, 6] then np_exponential R 0.2 g
             else np_exponential R 0.05 g);
          (rest, g2) = legacy_precipitation R dates g1
      in ((date, precip) # rest, g2))"

fun legacy_wind :: "'g rng \<Rightarrow> date list \<Rightarrow> 'g \<Rightarrow> series \<times> 'g" where
  "legacy_wind R [] g = ([], g)"
| "legacy_wind R (date # dates) g =
     (let (wind, g1) =
            (if month date \<in> set [11, 12, 1, 2]
             then (let (w, g') = np_weibull R 2 g in (w * 15, g'))
             else (let (w, g') = np_weibull R 2 g in (w * 8, g')));
          (rest, g2) = legacy_wind R dates g1
      in ((date, wind) # rest, g2))"

fun legacy_humidity :: "'g rng \<Rightarrow> date list \<Rightarrow> 'g \<Rightarrow> series \<times> 'g" where
  "legacy_humidity R [] g = ([], g)"
| "legacy_humidity R (date # dates) g =
     (let (humidity, g1) =
            (if month date \<in> set [6, 7, 8] then np_normal R 75 10 g
             else np_normal R 60 15 g);
          clamped = max 10 (min 100 humidity);
          (rest, g2) = legacy_humidity R dates g1
      in ((date, clamped) # rest, g2))"

definition generate_sample_data :: "'g rng \<Rightarrow> processor \<Rightarrow> 'g \<Rightarrow> processor \<times> 'g" where
  "generate_sample_data R self g =
     (let dates = year_days 2010 2024;
          (temp_data, g1) = legacy_temperature R dates g;
          self1 = set_variable self ''temperature'' temp_data;
          (precip_data, g2) = legacy_precipitation R dates g1;
          self2 = set_variable self1 ''precipitation'' precip_data;
          (wind_data, g3) = legacy_wind R dates g2;
          self3 = set_variable self2 ''wind'' wind_data;
          (humidity_data, g4) = legacy_humidity R dates g3;
          self4 = set_variable self3 ''humidity'' humidity_data
      in (self4, g4))"

section \<open>Loading\<close>

text \<open>The file system, as far as the loader asks it: \<open>os.path.exists\<close> and \<open>glob.glob\<close>.\<close>

record filesystem =
  fs_exists :: "string \<Rightarrow> bool"
  fs_glob :: "string \<Rightarrow> string list"

text \<open>\<open>os.path.join\<close> with a relative second part, \<open>os.path.basename\<close>, \<open>str.lower\<close>
  (on ASCII) and the substring test \<open>sub in s\<close>.\<close>

definition path_join :: "string \<Rightarrow> string \<Rightarrow> string" where
  "path_join a b = (if a = [] \<or> last a = CHR ''/'' then a @ b else a @ ''/'' @ b)"

definition basename :: "string \<Rightarrow> string" where
  "basename p = rev (takeWhile (\<lambda>c. c \<noteq> CHR ''/'') (rev p))"

definition lower_char :: "char \<Rightarrow> char" where
  "lower_char c =
     (let n = (of_char c :: nat) in if 65 \<le> n \<and> n \<le> 90 then char_of (n + 32) else c)"

definition lower :: "string \<Rightarrow> string" where
  "lower s = map lower_char s"

fun contains :: "string \<Rightarrow> string \<Rightarrow> bool" where
  "contains sub [] = (sub = [])"
| "contains sub (c # cs) = (take (length sub) (c # cs) = sub \<or> contains sub cs)"

text \<open>
  The four handlers call \<open>self._generate_sample_temperature_data()\<close> and its three
  siblings. The class defines none of them, so the attribute lookup raises
  \<open>AttributeError\<close>, which the handler's own \<open>except Exception\<close> catches and prints:
  the store is left as it was.
\<close>

definition undefined_method :: "exn + series" where
  "undefined_method = Inl AttributeError"

definition process_gldas_data :: "processor \<Rightarrow> string \<Rightarrow> processor" where
  "process_gldas_data self file_path =
     (if historical_data self ''temperature'' = None
      then (case undefined_method of
              Inl e \<Rightarrow> self
            | Inr df \<Rightarrow> set_variable self ''temperature'' df)
      else self)"

definition process_gpm_data :: "processor \<Rightarrow> string \<Rightarrow> processor" where
  "process_gpm_data self file_path =
     (if historical_data self ''precipitation'' = None
      then (case undefined_method of
              Inl e \<Rightarrow> self
            | Inr df \<Rightarrow> set_variable self ''precipitation'' df)
      else self)"

definition process_merra_data :: "processor \<Rightarrow> string \<Rightarrow> processor" where
  "process_merra_data self file_path =
     (if historical_data self ''wind'' = None
      then (case undefined_method of
              Inl e \<Rightarrow> self
            | Inr df \<Rightarrow> set_variable self ''wind'' df)
      else self)"

definition process_viirs_data :: "processor \<Rightarrow> string \<Rightarrow> processor" where
  "process_viirs_data self file_path =
     (if historical_data self ''humidity'' = None
      then (case undefined_method of
              Inl e \<Rightarrow> self
            | Inr df \<Rightarrow> set_variable self ''humidity'' df)
      else self)"

text \<open>The generic handler reads the file into a local frame and prints its size; a
  failure to read is caught and printed. It never touches the store.\<close>

definition process_generic_data :: "processor \<Rightarrow> string \<Rightarrow> processor" where
  "process_generic_data self file_path = self"

definition process_file :: "processor \<Rightarrow> string \<Rightarrow> processor" where
  "process_file self file_path =
     (let filename = lower (basename file_path)
      in if contains ''gldas'' filename then process_gldas_data self file_path
         else if contains ''gpm'' filename \<or> contains ''imerg'' filename
           then process_gpm_data self file_path
         else if contains ''merra'' filename \<or> contains ''m2tmnxlnd'' filename
           then process_merra_data self file_path
         else if contains ''cldmsk'' filename \<or> contains ''viirs'' filename
           then process_viirs_data self file_path
         else process_generic_data self file_path)"

text \<open>
  \<open>_load_actual_nasa_data\<close> returns whether the store holds a variable after the files
  were processed, and \<open>load_nasa_data\<close> chooses the generator. Their \<open>except\<close>
  branches (return \<open>False\<close>; call the enhanced generator) are not reached: the handlers
  catch their own exceptions and nothing else in the two \<open>try\<close> blocks raises here.
\<close>

definition load_actual_nasa_data :: "filesystem \<Rightarrow> processor \<Rightarrow> bool \<times> processor" where
  "load_actual_nasa_data fs self =
     (let nasa_files = fs_glob fs (path_join (data_directory self) ''*.txt'') @
                       fs_glob fs (path_join (data_directory self) ''*.nc'') @
                       fs_glob fs (path_join (data_directory self) ''*.csv'')
      in if nasa_files = [] then (False, self)
         else let self1 = foldl process_file self nasa_files
              in (historical_data self1 \<noteq> Map.empty, self1))"

definition load_nasa_data ::
  "filesystem \<Rightarrow> 'g rng \<Rightarrow> processor \<Rightarrow> 'g \<Rightarrow> processor \<times> 'g" where
  "load_nasa_data fs R self g =
     (if \<not> fs_exists fs (data_directory self) then generate_sample_data R self g
      else let (loaded, self1) = load_actual_nasa_data fs self
           in if \<not> loaded then generate_enhanced_sample_data R self1 g
              else (self1\<lparr>data_loaded := True\<rparr>, g))"

text \<open>The constructor \<open>__init__\<close>.\<close>

definition NASADataProcessor ::
  "filesystem \<Rightarrow> 'g rng \<Rightarrow> string \<Rightarrow> 'g \<Rightarrow> processor \<times> 'g" where
  "NASADataProcessor fs R dir g =
     load_nasa_data fs R
       \<lparr>data_directory = dir, historical_data = Map.empty, data_loaded = False\<rparr> g"

section \<open>Notions used in the statements\<close>

text \<open>A number between 0 and 100; the not-a-number is none.\<close>

definition percentage :: "pyfloat \<Rightarrow> bool" where
  "percentage v = (case v of Fl r \<Rightarrow> 0 \<le> r \<and> r \<le> 100 | NaN \<Rightarrow> False)"

text \<open>Samplers without randomness and two file systems, for the examples.\<close>

definition fixed_rng :: "unit rng" where
  "fixed_rng =
     \<lparr>np_normal = (\<lambda>mu sigma g. (mu + 10 * sigma, g)),
      np_exponential = (\<lambda>scale g. (scale, g)),
      np_weibull = (\<lambda>a g. (1, g)),
      np_random = (\<lambda>g. (1 / 2, g)),
      np_randint = (\<lambda>lo hi g. (lo, g))\<rparr>"

definition no_directory :: filesystem where
  "no_directory = \<lparr>fs_exists = (\<lambda>p. False), fs_glob = (\<lambda>p. [])\<rparr>"

definition gldas_directory :: filesystem where
  "gldas_directory =
     \<lparr>fs_exists = (\<lambda>p. True),
      fs_glob = (\<lambda>p. if p = ''sample_data/*.csv'' then [''sample_data/GLDAS_NOAH_2020.csv'']
                       else [])\<rparr>"

section \<open>Evaluation rules\<close>

lemmas strptime_eval = strptime_def re_Y_def re_m_def re_d_def match1_def match2_def orelse_def
  expect_dash_def is_digit_def digit_val_def days_in_month_def is_leap_def

lemmas dayofyear_eval = dayofyear_def days_before_month_def upto.simps

lemmas calc_eval = calculate_probabilities_def calculate_probabilities_try_def
  temperature_step_def precipitation_step_def wind_step_def comfort_step_def
  same_period_def merge_on_date_def calculate_heat_index_def expected_keys_def
  mean_def py_mul_def round1_def rint_def Let_def

section \<open>The keys of the result\<close>

lemma ensure_keys_apply:
  "ensure_keys ks p k =
     (case p k of Some v \<Rightarrow> Some v | None \<Rightarrow> if k \<in> set ks then Some (Fl 0) else None)"
proof (induction ks arbitrary: p)
  case Nil
  then show ?case by (simp split: option.splits)
next
  case (Cons a ks)
  show ?case
    by (cases "a = k") (auto simp: Cons.IH split: option.splits)
qed

lemma dom_ensure_keys: "dom (ensure_keys ks p) = dom p \<union> set ks"
  by (auto simp: dom_def ensure_keys_apply split: option.splits if_splits)

lemma dom_temperature_step: "dom (temperature_step self n p) \<subseteq> dom p \<union> {''hot'', ''cold''}"
  by (auto simp: temperature_step_def Let_def split: option.splits if_splits)

lemma dom_precipitation_step: "dom (precipitation_step self n p) \<subseteq> dom p \<union> {''wet''}"
  by (auto simp: precipitation_step_def Let_def split: option.splits if_splits)

lemma dom_wind_step: "dom (wind_step self n p) \<subseteq> dom p \<union> {''windy''}"
  by (auto simp: wind_step_def Let_def split: option.splits if_splits)

lemma dom_comfort_step: "dom (comfort_step self n p) \<subseteq> dom p \<union> {''uncomfortable''}"
  by (auto simp: comfort_step_def Let_def split: option.splits if_splits)

lemma dom_default_probabilities: "dom default_probabilities = set expected_keys"
  by (auto simp: default_probabilities_def expected_keys_def split: if_splits)

lemma dom_calculate_probabilities:
  "dom (calculate_probabilities self lat lng s) = set expected_keys"
proof (cases "strptime s")
  case (Inl e)
  then show ?thesis
    by (simp add: calculate_probabilities_def calculate_probabilities_try_def
        dom_default_probabilities)
next
  case (Inr dt)
  let ?n = "dayofyear dt"
  let ?p1 = "temperature_step self ?n Map.empty"
  let ?p2 = "precipitation_step self ?n ?p1"
  let ?p3 = "wind_step self ?n ?p2"
  have "dom (comfort_step self ?n ?p3) \<subseteq> set expected_keys"
    using dom_comfort_step[of self ?n ?p3] dom_wind_step[of self ?n ?p2]
      dom_precipitation_step[of self ?n ?p1] dom_temperature_step[of self ?n Map.empty]
    unfolding expected_keys_def by (simp only: list.set dom_empty) blast
  then show ?thesis using Inr
    by (auto simp: calculate_probabilities_def calculate_probabilities_try_def Let_def
        dom_ensure_keys)
qed

lemma calculate_probabilities_invalid_date:
  "strptime s = Inl e \<Longrightarrow> calculate_probabilities self lat lng s = default_probabilities"
  by (simp add: calculate_probabilities_def calculate_probabilities_try_def)

section \<open>Rounding\<close>

lemma rint_bounds: "real_of_int (rint x) \<le> x + 1 / 2 \<and> x - 1 / 2 \<le> real_of_int (rint x)"
  unfolding rint_def Let_def by (auto; linarith)

lemma rint_of_int: "rint (real_of_int k) = k"
  by (simp add: rint_def)

lemma rint_range:
  assumes "0 \<le> x" "x \<le> real_of_int k"
  shows "0 \<le> rint x \<and> rint x \<le> k"
proof -
  have b: "real_of_int (rint x) \<le> x + 1 / 2" "x - 1 / 2 \<le> real_of_int (rint x)"
    using rint_bounds by blast+
  have "real_of_int (rint x) > -1" using b(2) assms(1) by linarith
  then have lo: "0 \<le> rint x" by linarith
  have "real_of_int (rint x) < real_of_int k + 1" using b(1) assms(2) by linarith
  then have "rint x < k + 1" by linarith
  with lo show ?thesis by simp
qed

lemma round1_percentage:
  assumes "bs \<noteq> []"
  shows "percentage (round1 (py_mul (mean bs) 100))"
proof -
  let ?q = "real (length (filter (\<lambda>b. b) bs)) / real (length bs)"
  have len: "0 < real (length bs)" using assms by simp
  have "length (filter (\<lambda>b. b) bs) \<le> length bs" by simp
  then have "?q \<le> 1" using len by (simp add: divide_le_eq_1)
  moreover have "0 \<le> ?q" by simp
  ultimately have "0 \<le> ?q * 100 * 10" "?q * 100 * 10 \<le> real_of_int 1000" by simp_all
  then have "0 \<le> rint (?q * 100 * 10) \<and> rint (?q * 100 * 10) \<le> 1000"
    by (rule rint_range)
  then show ?thesis using assms
    by (simp add: percentage_def round1_def py_mul_def mean_def)
qed



section \<open>The value of each key\<close>

lemma temperature_step_apply:
  "temperature_step self n p k =
     (case historical_data self ''temperature'' of
        None \<Rightarrow> p k
      | Some df \<Rightarrow>
          if same_period n df = [] then p k
          else if k = ''cold''
            then Some (round1 (py_mul (mean (map (\<lambda>row. snd row < 32) (same_period n df))) 100))
          else if k = ''hot''
            then Some (round1 (py_mul (mean (map (\<lambda>row. snd row > 90) (same_period n df))) 100))
          else p k)"
  by (simp add: temperature_step_def Let_def split: option.splits)

lemma precipitation_step_apply:
  "precipitation_step self n p k =
     (case historical_data self ''precipitation'' of
        None \<Rightarrow> p k
      | Some df \<Rightarrow>
          if same_period n df = [] then p k
          else if k = ''wet''
            then Some (round1 (py_mul (mean (map (\<lambda>row. snd row > 0.5) (same_period n df))) 100))
          else p k)"
  by (simp add: precipitation_step_def Let_def split: option.splits)

lemma wind_step_apply:
  "wind_step self n p k =
     (case historical_data self ''wind'' of
        None \<Rightarrow> p k
      | Some df \<Rightarrow>
          if same_period n df = [] then p k
          else if k = ''windy''
            then Some (round1 (py_mul (mean (map (\<lambda>row. snd row > 15) (same_period n df))) 100))
          else p k)"
  by (simp add: wind_step_def Let_def split: option.splits)

lemma comfort_step_apply:
  "comfort_step self n p k =
     (case (historical_data self ''temperature'', historical_data self ''humidity'') of
        (Some tdf, Some hdf) \<Rightarrow>
          if same_period n tdf = [] \<or> same_period n hdf = [] then p k
          else if k = ''uncomfortable''
            then Some (round1 (py_mul (mean (map (\<lambda>(d, t, h). calculate_heat_index t h > 85)
                   (merge_on_date (same_period n tdf) (same_period n hdf)))) 100))
          else p k
      | _ \<Rightarrow> p k)"
  by (simp add: comfort_step_def Let_def comp_def split_def split: option.splits)

lemmas step_apply = temperature_step_apply precipitation_step_apply wind_step_apply
  comfort_step_apply

lemma hot_value:
  assumes "strptime s = Inr dt"
  shows "calculate_probabilities self lat lng s ''hot'' =
     Some (case historical_data self ''temperature'' of
             None \<Rightarrow> Fl 0
           | Some df \<Rightarrow>
               if same_period (dayofyear dt) df = [] then Fl 0
               else round1 (py_mul (mean (map (\<lambda>row. snd row > 90) (same_period (dayofyear dt) df))) 100))"
  using assms
  by (simp add: calculate_probabilities_def calculate_probabilities_try_def Let_def
      ensure_keys_apply expected_keys_def step_apply del: ensure_keys.simps split: option.splits)

lemma cold_value:
  assumes "strptime s = Inr dt"
  shows "calculate_probabilities self lat lng s ''cold'' =
     Some (case historical_data self ''temperature'' of
             None \<Rightarrow> Fl 0
           | Some df \<Rightarrow>
               if same_period (dayofyear dt) df = [] then Fl 0
               else round1 (py_mul (mean (map (\<lambda>row. snd row < 32) (same_period (dayofyear dt) df))) 100))"
  using assms
  by (simp add: calculate_probabilities_def calculate_probabilities_try_def Let_def
      ensure_keys_apply expected_keys_def step_apply del: ensure_keys.simps split: option.splits)

lemma wet_value:
  assumes "strptime s = Inr dt"
  shows "calculate_probabilities self lat lng s ''wet'' =
     Some (case historical_data self ''precipitation'' of
             None \<Rightarrow> Fl 0
           | Some df \<Rightarrow>
               if same_period (dayofyear dt) df = [] then Fl 0
               else round1 (py_mul (mean (map (\<lambda>row. snd row > 0.5) (same_period (dayofyear dt) df))) 100))"
  using assms
  by (simp add: calculate_probabilities_def calculate_probabilities_try_def Let_def
      ensure_keys_apply expected_keys_def step_apply del: ensure_keys.simps split: option.splits)

lemma windy_value:
  assumes "strptime s = Inr dt"
  shows "calculate_probabilities self lat lng s ''windy'' =
     Some (case historical_data self ''wind'' of
             None \<Rightarrow> Fl 0
           | Some df \<Rightarrow>
               if same_period (dayofyear dt) df = [] then Fl 0
               else round1 (py_mul (mean (map (\<lambda>row. snd row > 15) (same_period (dayofyear dt) df))) 100))"
  using assms
  by (simp add: calculate_probabilities_def calculate_probabilities_try_def Let_def
      ensure_keys_apply expected_keys_def step_apply del: ensure_keys.simps split: option.splits)

lemma uncomfortable_value:
  assumes "strptime s = Inr dt"
  shows "calculate_probabilities self lat lng s ''uncomfortable'' =
     Some (case (historical_data self ''temperature'', historical_data self ''humidity'') of
             (Some tdf, Some hdf) \<Rightarrow>
               if same_period (dayofyear dt) tdf = [] \<or> same_period (dayofyear dt) hdf = []
               then Fl 0
               else round1 (py_mul (mean (map (\<lambda>(d, t, h). calculate_heat_index t h > 85)
                      (merge_on_date (same_period (dayofyear dt) tdf)
                                     (same_period (dayofyear dt) hdf)))) 100)
           | _ \<Rightarrow> Fl 0)"
  using assms
  by (simp add: calculate_probabilities_def calculate_probabilities_try_def Let_def
      ensure_keys_apply expected_keys_def step_apply del: ensure_keys.simps split: option.splits)

section \<open>The range of the values\<close>

lemma percentage_zero: "percentage (Fl 0)"
  by (simp add: percentage_def)

lemma round1_nan: "round1 (py_mul (mean []) 100) = NaN"
  by (simp add: round1_def py_mul_def mean_def)

lemma hot_percentage: "\<exists>v. calculate_probabilities self lat lng s ''hot'' = Some v \<and> percentage v"
proof (cases "strptime s")
  case (Inl e)
  then show ?thesis
    by (simp add: calculate_probabilities_invalid_date default_probabilities_def percentage_zero)
next
  case (Inr dt)
  show ?thesis
    by (simp add: hot_value[OF Inr] percentage_zero round1_percentage split: option.splits)
qed

lemma cold_percentage: "\<exists>v. calculate_probabilities self lat lng s ''cold'' = Some v \<and> percentage v"
proof (cases "strptime s")
  case (Inl e)
  then show ?thesis
    by (simp add: calculate_probabilities_invalid_date default_probabilities_def percentage_zero)
next
  case (Inr dt)
  show ?thesis
    by (simp add: cold_value[OF Inr] percentage_zero round1_percentage split: option.splits)
qed

lemma wet_percentage: "\<exists>v. calculate_probabilities self lat lng s ''wet'' = Some v \<and> percentage v"
proof (cases "strptime s")
  case (Inl e)
  then show ?thesis
    by (simp add: calculate_probabilities_invalid_date default_probabilities_def percentage_zero)
next
  case (Inr dt)
  show ?thesis
    by (simp add: wet_value[OF Inr] percentage_zero round1_percentage split: option.splits)
qed

lemma windy_percentage: "\<exists>v. calculate_probabilities self lat lng s ''windy'' = Some v \<and> percentage v"
proof (cases "strptime s")
  case (Inl e)
  then show ?thesis
    by (simp add: calculate_probabilities_invalid_date default_probabilities_def percentage_zero)
next
  case (Inr dt)
  show ?thesis
    by (simp add: windy_value[OF Inr] percentage_zero round1_percentage split: option.splits)
qed

lemma uncomfortable_percentage_or_nan:
  "\<exists>v. calculate_probabilities self lat lng s ''uncomfortable'' = Some v \<and>
       (percentage v \<or> v = NaN)"
proof (cases "strptime s")
  case (Inl e)
  then show ?thesis
    by (simp add: calculate_probabilities_invalid_date default_probabilities_def percentage_zero)
next
  case (Inr dt)
  have "percentage (round1 (py_mul (mean bs) 100)) \<or> round1 (py_mul (mean bs) 100) = NaN"
    for bs
    by (cases "bs = []") (simp_all add: round1_nan round1_percentage)
  then show ?thesis
    by (simp add: uncomfortable_value[OF Inr] percentage_zero split: option.splits)
qed

section \<open>Location, determinism and failure\<close>

text \<open>
  C9. Against a fixed store \<open>calculate_probabilities\<close> is a function of the target date
  alone: the method draws no random number and assigns to no field, so two calls with the
  same date return the same result, and the latitude and the longitude do not enter it.
\<close>

theorem calculate_probabilities_ignores_location:
  "calculate_probabilities self lat1 lng1 target_date =
   calculate_probabilities self lat2 lng2 target_date"
  by (simp add: calculate_probabilities_def calculate_probabilities_try_def)



text \<open>
  C1. The five keys are always present (\<open>dom_calculate_probabilities\<close>), and \<open>hot\<close>,
  \<open>cold\<close>, \<open>wet\<close> and \<open>windy\<close> are always numbers between 0 and 100 (\<open>hot_percentage\<close>
  and its siblings). The value of \<open>uncomfortable\<close> is not: the method checks that the
  temperature window and the humidity window are non-empty, but not that their join is,
  and the mean of the empty join is not a number. Here the store has one temperature row
  and one humidity row, both in the window of the 15th of July but of different years.
\<close>

theorem calculate_probabilities_uncomfortable_nan:
  "calculate_probabilities
     \<lparr>data_directory = ''sample_data'',
      historical_data = [''temperature'' \<mapsto> [(Date 2020 7 15, 95)],
                         ''humidity'' \<mapsto> [(Date 2021 7 15, 60)]],
      data_loaded = False\<rparr> 40 (-75) ''2022-07-15'' ''uncomfortable'' = Some NaN \<and>
   \<not> percentage NaN"
  by (simp add: strptime_eval dayofyear_eval calc_eval percentage_def)

section \<open>Rounding to one decimal\<close>




section \<open>The window\<close>








section \<open>The join\<close>




section \<open>The day of the year of the target date\<close>

lemma days_in_month_leap:
  "is_leap y = is_leap y' \<Longrightarrow> days_in_month y = days_in_month y'"
  by (rule ext) (simp add: days_in_month_def)

lemma days_before_month_early: "m \<le> 2 \<Longrightarrow> days_before_month y m = days_before_month y' m"
proof -
  assume "m \<le> 2"
  then consider "m = 2" | "m \<le> 1" by linarith
  then show ?thesis
  proof cases
    case 1
    then show ?thesis by (simp add: days_before_month_def days_in_month_def)
  next
    case 2
    then show ?thesis by (simp add: days_before_month_def)
  qed
qed

lemma dayofyear_same_month_day:
  assumes "month d1 = month d2" "day d1 = day d2"
    and "is_leap (year d1) = is_leap (year d2) \<or> month d1 \<le> 2"
  shows "dayofyear d1 = dayofyear d2"
  using assms days_in_month_leap[of "year d1" "year d2"]
    days_before_month_early[of "month d1" "year d1" "year d2"]
  by (auto simp: dayofyear_def days_before_month_def)

lemma days_before_month_leap_shift:
  assumes "is_leap y" "\<not> is_leap y'" "3 \<le> m"
  shows "days_before_month y m = days_before_month y' m + 1"
proof -
  have u: "[1..m - 1] = 1 # 2 # [3..m - 1]"
    using assms(3) by (simp add: upto_rec1[of 1] upto_rec1[of 2])
  have e: "map (days_in_month y) [3..m - 1] = map (days_in_month y') [3..m - 1]"
    by (rule map_cong) (auto simp: days_in_month_def)
  have "days_before_month y m = 31 + 29 + sum_list (map (days_in_month y) [3..m - 1])"
    using assms(1) by (simp add: days_before_month_def u days_in_month_def)
  moreover have "days_before_month y' m = 31 + 28 + sum_list (map (days_in_month y') [3..m - 1])"
    using assms(2) by (simp add: days_before_month_def u days_in_month_def)
  ultimately show ?thesis by (simp add: e)
qed

lemma dayofyear_leap_shift:
  assumes "is_leap y" "\<not> is_leap y'" "3 \<le> m"
  shows "dayofyear (Date y m d) = dayofyear (Date y' m d) + 1"
  using days_before_month_leap_shift[OF assms] by (simp add: dayofyear_def)

lemma calculate_probabilities_dayofyear:
  assumes "strptime s1 = Inr d1" "strptime s2 = Inr d2" "dayofyear d1 = dayofyear d2"
  shows "calculate_probabilities self lat lng s1 = calculate_probabilities self lat lng s2"
  using assms by (simp add: calculate_probabilities_def calculate_probabilities_try_def)

text \<open>
  C10. The target date enters the result only through its day of the year: two target
  dates that parse and have the same day of the year give the same result, whatever
  their years. Two dates with the same month and day have the same day of the year when
  their years are both leap or both not, or when the month is January or February; from
  March on, the day of the year is one more in a leap year.
\<close>

theorem calculate_probabilities_only_dayofyear:
  "(strptime s1 = Inr d1 \<and> strptime s2 = Inr d2 \<and> dayofyear d1 = dayofyear d2 \<longrightarrow>
      calculate_probabilities self lat lng s1 = calculate_probabilities self lat lng s2) \<and>
   (month d1 = month d2 \<and> day d1 = day d2 \<and>
      (is_leap (year d1) = is_leap (year d2) \<or> month d1 \<le> 2) \<longrightarrow>
      dayofyear d1 = dayofyear d2) \<and>
   (is_leap y \<and> \<not> is_leap y' \<and> 3 \<le> m \<longrightarrow>
      dayofyear (Date y m d) = dayofyear (Date y' m d) + 1)"
  using calculate_probabilities_dayofyear[of s1 d1 s2 d2] dayofyear_same_month_day[of d1 d2]
    dayofyear_leap_shift[of y y' m d]
  by blast

theorem calculate_probabilities_only_dayofyear_witness:
  "strptime ''2023-07-15'' = Inr (Date 2023 7 15) \<and>
   strptime ''1999-07-15'' = Inr (Date 1999 7 15) \<and>
   month (Date 2023 7 15) = month (Date 1999 7 15) \<and>
   day (Date 2023 7 15) = day (Date 1999 7 15) \<and>
   is_leap (year (Date 2023 7 15)) = is_leap (year (Date 1999 7 15)) \<and>
   dayofyear (Date 2023 7 15) = dayofyear (Date 1999 7 15) \<and>
   is_leap 2024 \<and> \<not> is_leap 2023 \<and> (3 :: int) \<le> 7 \<and>
   dayofyear (Date 2024 7 15) = dayofyear (Date 2023 7 15) + 1 \<and>
   calculate_probabilities
     \<lparr>data_directory = ''sample_data'',
      historical_data = [''temperature'' \<mapsto> [(Date 2020 7 15, 95), (Date 2021 7 16, 80)]],
      data_loaded = False\<rparr> 40 (-75) ''2023-07-15'' =
   calculate_probabilities
     \<lparr>data_directory = ''sample_data'',
      historical_data = [''temperature'' \<mapsto> [(Date 2020 7 15, 95), (Date 2021 7 16, 80)]],
      data_loaded = False\<rparr> 40 (-75) ''1999-07-15''"
proof -
  have p: "strptime ''2023-07-15'' = Inr (Date 2023 7 15)"
    "strptime ''1999-07-15'' = Inr (Date 1999 7 15)"
    by (simp_all add: strptime_eval)
  have l: "is_leap (year (Date 2023 7 15)) = is_leap (year (Date 1999 7 15))"
    by (simp add: is_leap_def)
  have m: "month (Date 2023 7 15) = month (Date 1999 7 15)"
    "day (Date 2023 7 15) = day (Date 1999 7 15)"
    by simp_all
  have y: "is_leap 2024" "\<not> is_leap 2023" "(3 :: int) \<le> 7"
    by (simp_all add: is_leap_def)
  show ?thesis
    using calculate_probabilities_only_dayofyear
      [of "''2023-07-15''" "Date 2023 7 15" "''1999-07-15''" "Date 1999 7 15"
        "\<lparr>data_directory = ''sample_data'',
          historical_data = [''temperature'' \<mapsto> [(Date 2020 7 15, 95), (Date 2021 7 16, 80)]],
          data_loaded = False\<rparr>" 40 "-75" 2024 2023 7 15] p l m y
    by blast
qed

section \<open>The trends\<close>

lemma trend_loop_map:
  "trend_loop self lat lng ys hot wet =
     (hot @ map (\<lambda>y. get_or_zero (calculate_probabilities self lat lng (str_int y @ ''-07-15''))
                         ''hot'') ys,
      wet @ map (\<lambda>y. get_or_zero (calculate_probabilities self lat lng (str_int y @ ''-07-15''))
                         ''wet'') ys)"
  by (induction ys arbitrary: hot wet) (simp_all add: Let_def)

lemma trend_years: "[2015..2024] = [2015, 2016, 2017, 2018, 2019, 2020, 2021, 2022, 2023, 2024 :: int]"
  by (simp add: upto.simps)

lemma str_int_years:
  "map str_int [2015, 2016, 2017, 2018, 2019, 2020, 2021, 2022, 2023, 2024] =
     [''2015'', ''2016'', ''2017'', ''2018'', ''2019'', ''2020'', ''2021'', ''2022'', ''2023'',
      ''2024'']"
  by code_simp

lemma sample_dates:
  "map (\<lambda>y. str_int y @ ''-07-15'') [2015..2024] =
     [''2015-07-15'', ''2016-07-15'', ''2017-07-15'', ''2018-07-15'', ''2019-07-15'',
      ''2020-07-15'', ''2021-07-15'', ''2022-07-15'', ''2023-07-15'', ''2024-07-15'']"
proof -
  have "map (\<lambda>y. str_int y @ ''-07-15'') [2015..2024] =
        map (\<lambda>s. s @ ''-07-15'') (map str_int [2015..2024])"
    by (simp add: comp_def)
  then show ?thesis
    by (simp only: trend_years str_int_years) simp
qed

lemma get_or_zero_calculate_probabilities:
  "k \<in> set expected_keys \<Longrightarrow>
   calculate_probabilities self lat lng s k =
     Some (get_or_zero (calculate_probabilities self lat lng s) k)"
proof -
  assume "k \<in> set expected_keys"
  then have "k \<in> dom (calculate_probabilities self lat lng s)"
    by (simp add: dom_calculate_probabilities)
  then show ?thesis by (auto simp: get_or_zero_def)
qed

lemma get_historical_trends_try_eq:
  "get_historical_trends_try self lat lng =
     Inr \<lparr>years = [2015..2024],
          hot_probabilities =
            map (\<lambda>d. get_or_zero (calculate_probabilities self lat lng d) ''hot'')
                (map (\<lambda>y. str_int y @ ''-07-15'') [2015..2024]),
          wet_probabilities =
            map (\<lambda>d. get_or_zero (calculate_probabilities self lat lng d) ''wet'')
                (map (\<lambda>y. str_int y @ ''-07-15'') [2015..2024])\<rparr>"
  by (simp add: get_historical_trends_try_def trend_loop_map comp_def del: upto.simps)

lemma get_historical_trends_try_explicit:
  "get_historical_trends_try self lat lng =
     Inr \<lparr>years = [2015, 2016, 2017, 2018, 2019, 2020, 2021, 2022, 2023, 2024],
          hot_probabilities =
            map (\<lambda>d. get_or_zero (calculate_probabilities self lat lng d) ''hot'')
              [''2015-07-15'', ''2016-07-15'', ''2017-07-15'', ''2018-07-15'', ''2019-07-15'',
               ''2020-07-15'', ''2021-07-15'', ''2022-07-15'', ''2023-07-15'', ''2024-07-15''],
          wet_probabilities =
            map (\<lambda>d. get_or_zero (calculate_probabilities self lat lng d) ''wet'')
              [''2015-07-15'', ''2016-07-15'', ''2017-07-15'', ''2018-07-15'', ''2019-07-15'',
               ''2020-07-15'', ''2021-07-15'', ''2022-07-15'', ''2023-07-15'', ''2024-07-15'']\<rparr>"
  by (simp only: get_historical_trends_try_eq sample_dates) (simp only: trend_years)

lemma length_randint_list: "length (fst (randint_list R lo hi ys g)) = length ys"
  by (induction ys arbitrary: g) (simp_all add: split_beta Let_def)

text \<open>
  C6. For every latitude and longitude \<open>get_historical_trends\<close> returns the years 2015
  to 2024 and two sequences of ten values. The \<open>try\<close> block always completes, and its
  values are the \<open>hot\<close> and \<open>wet\<close> entries of \<open>calculate_probabilities\<close> at the 15th of
  July of each year.
\<close>

theorem get_historical_trends_shape:
  "years (fst (get_historical_trends R self lat lng g)) =
     [2015, 2016, 2017, 2018, 2019, 2020, 2021, 2022, 2023, 2024] \<and>
   length (years (fst (get_historical_trends R self lat lng g))) = 10 \<and>
   length (hot_probabilities (fst (get_historical_trends R self lat lng g))) = 10 \<and>
   length (wet_probabilities (fst (get_historical_trends R self lat lng g))) = 10 \<and>
   (\<exists>t. get_historical_trends_try self lat lng = Inr t) \<and>
   (\<forall>t. get_historical_trends_try self lat lng = Inr t \<longrightarrow>
      get_historical_trends R self lat lng g = (t, g) \<and>
      map Some (hot_probabilities t) =
        map (\<lambda>d. calculate_probabilities self lat lng d ''hot'')
          [''2015-07-15'', ''2016-07-15'', ''2017-07-15'', ''2018-07-15'', ''2019-07-15'',
           ''2020-07-15'', ''2021-07-15'', ''2022-07-15'', ''2023-07-15'', ''2024-07-15''] \<and>
      map Some (wet_probabilities t) =
        map (\<lambda>d. calculate_probabilities self lat lng d ''wet'')
          [''2015-07-15'', ''2016-07-15'', ''2017-07-15'', ''2018-07-15'', ''2019-07-15'',
           ''2020-07-15'', ''2021-07-15'', ''2022-07-15'', ''2023-07-15'', ''2024-07-15''])"
proof -
  let ?ds = "[''2015-07-15'', ''2016-07-15'', ''2017-07-15'', ''2018-07-15'', ''2019-07-15'',
           ''2020-07-15'', ''2021-07-15'', ''2022-07-15'', ''2023-07-15'', ''2024-07-15'']"
  let ?t = "\<lparr>years = [2015, 2016, 2017, 2018, 2019, 2020, 2021, 2022, 2023, 2024],
          hot_probabilities =
            map (\<lambda>d. get_or_zero (calculate_probabilities self lat lng d) ''hot'') ?ds,
          wet_probabilities =
            map (\<lambda>d. get_or_zero (calculate_probabilities self lat lng d) ''wet'') ?ds\<rparr>"
  have t: "get_historical_trends_try self lat lng = Inr ?t"
    by (rule get_historical_trends_try_explicit)
  have r: "get_historical_trends R self lat lng g = (?t, g)"
    by (simp add: get_historical_trends_def t)
  have hot: "map Some (hot_probabilities ?t) =
      map (\<lambda>d. calculate_probabilities self lat lng d ''hot'') ?ds"
    using get_or_zero_calculate_probabilities[of "''hot''" self lat lng]
    by (simp add: expected_keys_def)
  have wet: "map Some (wet_probabilities ?t) =
      map (\<lambda>d. calculate_probabilities self lat lng d ''wet'') ?ds"
    using get_or_zero_calculate_probabilities[of "''wet''" self lat lng]
    by (simp add: expected_keys_def)
  have "years (fst (get_historical_trends R self lat lng g)) =
     [2015, 2016, 2017, 2018, 2019, 2020, 2021, 2022, 2023, 2024]"
    by (simp add: r)
  moreover have "length (years (fst (get_historical_trends R self lat lng g))) = 10"
    by (simp add: r)
  moreover have "length (hot_probabilities (fst (get_historical_trends R self lat lng g))) = 10"
    by (simp add: r)
  moreover have "length (wet_probabilities (fst (get_historical_trends R self lat lng g))) = 10"
    by (simp add: r)
  moreover have "\<exists>t. get_historical_trends_try self lat lng = Inr t"
    using t by blast
  moreover have "get_historical_trends R self lat lng g = (u, g) \<and>
      map Some (hot_probabilities u) =
        map (\<lambda>d. calculate_probabilities self lat lng d ''hot'') ?ds \<and>
      map Some (wet_probabilities u) =
        map (\<lambda>d. calculate_probabilities self lat lng d ''wet'') ?ds"
    if "get_historical_trends_try self lat lng = Inr u" for u
  proof -
    from that t have "u = ?t" by simp
    then show ?thesis using r hot wet by blast
  qed
  ultimately show ?thesis by blast
qed

theorem get_historical_trends_shape_witness:
  "get_historical_trends_try
     \<lparr>data_directory = ''sample_data'',
      historical_data = [''temperature'' \<mapsto> [(Date 2020 7 15, 95)]],
      data_loaded = False\<rparr> 40 (-75) =
     Inr \<lparr>years = [2015, 2016, 2017, 2018, 2019, 2020, 2021, 2022, 2023, 2024],
          hot_probabilities = [Fl 100, Fl 100, Fl 100, Fl 100, Fl 100, Fl 100, Fl 100, Fl 100,
                               Fl 100, Fl 100],
          wet_probabilities = [Fl 0, Fl 0, Fl 0, Fl 0, Fl 0, Fl 0, Fl 0, Fl 0, Fl 0, Fl 0]\<rparr> \<and>
   get_historical_trends fixed_rng
     \<lparr>data_directory = ''sample_data'',
      historical_data = [''temperature'' \<mapsto> [(Date 2020 7 15, 95)]],
      data_loaded = False\<rparr> 40 (-75) () =
     (\<lparr>years = [2015, 2016, 2017, 2018, 2019, 2020, 2021, 2022, 2023, 2024],
       hot_probabilities = [Fl 100, Fl 100, Fl 100, Fl 100, Fl 100, Fl 100, Fl 100, Fl 100,
                            Fl 100, Fl 100],
       wet_probabilities = [Fl 0, Fl 0, Fl 0, Fl 0, Fl 0, Fl 0, Fl 0, Fl 0, Fl 0, Fl 0]\<rparr>, ())"
proof -
  let ?self = "\<lparr>data_directory = ''sample_data'',
      historical_data = [''temperature'' \<mapsto> [(Date 2020 7 15, 95 :: real)]],
      data_loaded = False\<rparr>"
  have c: "calculate_probabilities ?self 40 (-75) d =
      [''hot'' \<mapsto> Fl 100, ''cold'' \<mapsto> Fl 0, ''wet'' \<mapsto> Fl 0, ''windy'' \<mapsto> Fl 0,
       ''uncomfortable'' \<mapsto> Fl 0]"
    if "d \<in> set [''2015-07-15'', ''2016-07-15'', ''2017-07-15'', ''2018-07-15'', ''2019-07-15'',
           ''2020-07-15'', ''2021-07-15'', ''2022-07-15'', ''2023-07-15'', ''2024-07-15'']" for d
    using that
    by (auto simp: strptime_eval dayofyear_eval calc_eval)
  have t: "get_historical_trends_try ?self 40 (-75) =
     Inr \<lparr>years = [2015, 2016, 2017, 2018, 2019, 2020, 2021, 2022, 2023, 2024],
          hot_probabilities = [Fl 100, Fl 100, Fl 100, Fl 100, Fl 100, Fl 100, Fl 100, Fl 100,
                               Fl 100, Fl 100],
          wet_probabilities = [Fl 0, Fl 0, Fl 0, Fl 0, Fl 0, Fl 0, Fl 0, Fl 0, Fl 0, Fl 0]\<rparr>"
    by (simp only: get_historical_trends_try_explicit) (simp add: c get_or_zero_def)
  show ?thesis
    using get_historical_trends_shape[of fixed_rng ?self 40 "-75" "()"] t by simp
qed

section \<open>The generated series\<close>

lemma year_days_Cons:
  assumes "y1 \<le> y2"
  shows "\<exists>rest. year_days y1 y2 = Date y1 1 1 # rest"
proof -
  have m: "[1..12] = 1 # [2..12 :: int]" by (simp add: upto_rec1)
  have d: "[1..days_in_month y1 1] = 1 # [2..days_in_month y1 1]"
    by (simp add: upto_rec1 days_in_month_def)
  show ?thesis
    using assms by (simp add: year_days_def upto_rec1[of y1 y2] m d)
qed

lemma year_days_snoc:
  assumes "y1 \<le> y2"
  shows "\<exists>front. year_days y1 y2 = front @ [Date y2 12 31]"
proof -
  have m: "[1..12] = [1..11] @ [12 :: int]" by (simp add: upto_rec2)
  have d: "[1..days_in_month y2 12] = [1..30] @ [31]"
    by (simp add: upto_rec2 days_in_month_def)
  show ?thesis
    using assms by (simp add: year_days_def upto_rec2[of y1 y2] m d)
qed

lemma dates_enhanced_temperature: "map fst (fst (enhanced_temperature R ds g)) = ds"
  by (induction ds arbitrary: g) (simp_all add: split_beta Let_def)

lemma dates_enhanced_precipitation: "map fst (fst (enhanced_precipitation R ds g)) = ds"
  by (induction ds arbitrary: g) (simp_all add: split_beta Let_def)

lemma dates_enhanced_wind: "map fst (fst (enhanced_wind R ds g)) = ds"
  by (induction ds arbitrary: g) (simp_all add: split_beta Let_def)

lemma dates_enhanced_humidity: "map fst (fst (enhanced_humidity R ds g)) = ds"
  by (induction ds arbitrary: g) (simp_all add: split_beta Let_def)

lemma dates_legacy_temperature: "map fst (fst (legacy_temperature R ds g)) = ds"
  by (induction ds arbitrary: g) (simp_all add: split_beta Let_def)

lemma dates_legacy_precipitation: "map fst (fst (legacy_precipitation R ds g)) = ds"
  by (induction ds arbitrary: g) (simp_all add: split_beta Let_def)

lemma dates_legacy_wind: "map fst (fst (legacy_wind R ds g)) = ds"
  by (induction ds arbitrary: g) (simp_all add: split_beta Let_def)

lemma dates_legacy_humidity: "map fst (fst (legacy_humidity R ds g)) = ds"
  by (induction ds arbitrary: g) (simp_all add: split_beta Let_def)

lemma enhanced_humidity_clamped:
  "row \<in> set (fst (enhanced_humidity R ds g)) \<Longrightarrow> 15 \<le> snd row \<and> snd row \<le> 95"
  by (induction ds arbitrary: g) (auto simp: split_beta Let_def)

lemma legacy_humidity_clamped:
  "row \<in> set (fst (legacy_humidity R ds g)) \<Longrightarrow> 10 \<le> snd row \<and> snd row \<le> 100"
  by (induction ds arbitrary: g) (auto simp: split_beta Let_def)

lemma generate_enhanced_humidity:
  "\<exists>g3. historical_data (fst (generate_enhanced_sample_data R self g)) ''humidity'' =
         Some (fst (enhanced_humidity R (year_days 2008 2023) g3))"
  by (simp add: generate_enhanced_sample_data_def set_variable_def split_beta Let_def)
    (rule exI, rule refl)

lemma generate_sample_humidity:
  "\<exists>g3. historical_data (fst (generate_sample_data R self g)) ''humidity'' =
         Some (fst (legacy_humidity R (year_days 2010 2024) g3))"
  by (simp add: generate_sample_data_def set_variable_def split_beta Let_def)
    (rule exI, rule refl)

lemma enhanced_humidity_hd:
  "fst (enhanced_humidity R (d # ds) g) =
     (d, max 15 (min 95 (fst (if 150 \<le> dayofyear d \<and> dayofyear d \<le> 240
                              then np_normal R 75 8 g else np_normal R 65 12 g))))
     # fst (enhanced_humidity R ds
              (snd (if 150 \<le> dayofyear d \<and> dayofyear d \<le> 240
                    then np_normal R 75 8 g else np_normal R 65 12 g)))"
  by (simp add: split_beta Let_def)

lemma legacy_humidity_hd:
  "fst (legacy_humidity R (d # ds) g) =
     (d, max 10 (min 100 (fst (if month d \<in> set [6, 7, 8]
                               then np_normal R 75 10 g else np_normal R 60 15 g))))
     # fst (legacy_humidity R ds
              (snd (if month d \<in> set [6, 7, 8]
                    then np_normal R 75 10 g else np_normal R 60 15 g)))"
  by (simp add: split_beta Let_def)

text \<open>
  C8. Whatever the random draws, every humidity value that the enhanced generator stores
  lies between 15 and 95, and every humidity value that the legacy generator stores lies
  between 10 and 100.
\<close>

theorem generated_humidity_clamped:
  "historical_data (fst (generate_enhanced_sample_data R self g)) ''humidity'' \<noteq> None \<and>
   (\<forall>row \<in> set (the (historical_data (fst (generate_enhanced_sample_data R self g))
                        ''humidity'')).
      15 \<le> snd row \<and> snd row \<le> 95) \<and>
   historical_data (fst (generate_sample_data R self g)) ''humidity'' \<noteq> None \<and>
   (\<forall>row \<in> set (the (historical_data (fst (generate_sample_data R self g)) ''humidity'')).
      10 \<le> snd row \<and> snd row \<le> 100)"
proof -
  obtain g3 where e: "historical_data (fst (generate_enhanced_sample_data R self g)) ''humidity'' =
         Some (fst (enhanced_humidity R (year_days 2008 2023) g3))"
    using generate_enhanced_humidity[of R self g] by blast
  obtain g3' where l: "historical_data (fst (generate_sample_data R self g)) ''humidity'' =
         Some (fst (legacy_humidity R (year_days 2010 2024) g3'))"
    using generate_sample_humidity[of R self g] by blast
  show ?thesis
    using enhanced_humidity_clamped[of _ R "year_days 2008 2023" g3]
      legacy_humidity_clamped[of _ R "year_days 2010 2024" g3']
    by (simp add: e l)
qed

theorem generated_humidity_clamped_witness:
  "hd (the (historical_data
        (fst (generate_enhanced_sample_data fixed_rng
           \<lparr>data_directory = ''sample_data'', historical_data = Map.empty,
            data_loaded = False\<rparr> ())) ''humidity''))
     \<in> set (the (historical_data
        (fst (generate_enhanced_sample_data fixed_rng
           \<lparr>data_directory = ''sample_data'', historical_data = Map.empty,
            data_loaded = False\<rparr> ())) ''humidity'')) \<and>
   hd (the (historical_data
        (fst (generate_enhanced_sample_data fixed_rng
           \<lparr>data_directory = ''sample_data'', historical_data = Map.empty,
            data_loaded = False\<rparr> ())) ''humidity'')) = (Date 2008 1 1, 95) \<and>
   hd (the (historical_data
        (fst (generate_sample_data fixed_rng
           \<lparr>data_directory = ''sample_data'', historical_data = Map.empty,
            data_loaded = False\<rparr> ())) ''humidity''))
     \<in> set (the (historical_data
        (fst (generate_sample_data fixed_rng
           \<lparr>data_directory = ''sample_data'', historical_data = Map.empty,
            data_loaded = False\<rparr> ())) ''humidity'')) \<and>
   hd (the (historical_data
        (fst (generate_sample_data fixed_rng
           \<lparr>data_directory = ''sample_data'', historical_data = Map.empty,
            data_loaded = False\<rparr> ())) ''humidity'')) = (Date 2010 1 1, 100) \<and>
   15 \<le> snd (hd (the (historical_data
        (fst (generate_enhanced_sample_data fixed_rng
           \<lparr>data_directory = ''sample_data'', historical_data = Map.empty,
            data_loaded = False\<rparr> ())) ''humidity''))) \<and>
   snd (hd (the (historical_data
        (fst (generate_sample_data fixed_rng
           \<lparr>data_directory = ''sample_data'', historical_data = Map.empty,
            data_loaded = False\<rparr> ())) ''humidity''))) \<le> 100"
proof -
  let ?self = "\<lparr>data_directory = ''sample_data'', historical_data = Map.empty,
            data_loaded = False\<rparr>"
  let ?E = "the (historical_data (fst (generate_enhanced_sample_data fixed_rng ?self ()))
                  ''humidity'')"
  let ?L = "the (historical_data (fst (generate_sample_data fixed_rng ?self ())) ''humidity'')"
  obtain r1 where y1: "year_days 2008 2023 = Date 2008 1 1 # r1"
    using year_days_Cons[of 2008 2023] by auto
  obtain r2 where y2: "year_days 2010 2024 = Date 2010 1 1 # r2"
    using year_days_Cons[of 2010 2024] by auto
  have d: "dayofyear (Date 2008 1 1) = 1"
    by (simp add: dayofyear_def days_before_month_def)
  have e: "?E = fst (enhanced_humidity fixed_rng (year_days 2008 2023) ())"
    by (simp add: generate_enhanced_sample_data_def set_variable_def split_beta Let_def)
  have l: "?L = fst (legacy_humidity fixed_rng (year_days 2010 2024) ())"
    by (simp add: generate_sample_data_def set_variable_def split_beta Let_def)
  have he: "hd ?E = (Date 2008 1 1, 95)"
    by (simp only: e y1 enhanced_humidity_hd) (simp add: d fixed_rng_def)
  have hl: "hd ?L = (Date 2010 1 1, 100)"
    by (simp only: l y2 legacy_humidity_hd) (simp add: fixed_rng_def)
  have me: "hd ?E \<in> set ?E"
    by (simp only: e y1 enhanced_humidity_hd) simp
  have ml: "hd ?L \<in> set ?L"
    by (simp only: l y2 legacy_humidity_hd) simp
  have "15 \<le> snd (hd ?E)" "snd (hd ?L) \<le> 100"
    using generated_humidity_clamped[of fixed_rng ?self "()"] me ml by blast+
  with he hl me ml show ?thesis by blast
qed

section \<open>The fallback of the loader\<close>

lemma process_file_id: "process_file self file_path = self"
  by (simp add: process_file_def process_gldas_data_def process_gpm_data_def
      process_merra_data_def process_viirs_data_def process_generic_data_def
      undefined_method_def Let_def)

lemma foldl_process_file: "foldl process_file self files = self"
  by (induction files) (simp_all add: process_file_id)

lemma snd_load_actual_nasa_data: "snd (load_actual_nasa_data fs self) = self"
  by (simp add: load_actual_nasa_data_def foldl_process_file Let_def)

lemma load_actual_nasa_data_empty_store:
  "historical_data self = Map.empty \<Longrightarrow> load_actual_nasa_data fs self = (False, self)"
  by (simp add: load_actual_nasa_data_def foldl_process_file Let_def)

lemma NASADataProcessor_missing_directory:
  "\<not> fs_exists fs dir \<Longrightarrow>
   NASADataProcessor fs R dir g =
     generate_sample_data R
       \<lparr>data_directory = dir, historical_data = Map.empty, data_loaded = False\<rparr> g"
  by (simp add: NASADataProcessor_def load_nasa_data_def)

lemma NASADataProcessor_existing_directory:
  "fs_exists fs dir \<Longrightarrow>
   NASADataProcessor fs R dir g =
     generate_enhanced_sample_data R
       \<lparr>data_directory = dir, historical_data = Map.empty, data_loaded = False\<rparr> g"
  by (simp add: NASADataProcessor_def load_nasa_data_def load_actual_nasa_data_empty_store)

lemma generate_sample_data_dates:
  "map_option (map fst) (historical_data (fst (generate_sample_data R self g)) ''temperature'') =
     Some (year_days 2010 2024) \<and>
   map_option (map fst) (historical_data (fst (generate_sample_data R self g)) ''precipitation'') =
     Some (year_days 2010 2024) \<and>
   map_option (map fst) (historical_data (fst (generate_sample_data R self g)) ''wind'') =
     Some (year_days 2010 2024) \<and>
   map_option (map fst) (historical_data (fst (generate_sample_data R self g)) ''humidity'') =
     Some (year_days 2010 2024)"
  by (simp add: generate_sample_data_def set_variable_def split_beta Let_def
      dates_legacy_temperature dates_legacy_precipitation dates_legacy_wind
      dates_legacy_humidity)

lemma generate_enhanced_sample_data_dates:
  "map_option (map fst)
     (historical_data (fst (generate_enhanced_sample_data R self g)) ''temperature'') =
     Some (year_days 2008 2023) \<and>
   map_option (map fst)
     (historical_data (fst (generate_enhanced_sample_data R self g)) ''precipitation'') =
     Some (year_days 2008 2023) \<and>
   map_option (map fst)
     (historical_data (fst (generate_enhanced_sample_data R self g)) ''wind'') =
     Some (year_days 2008 2023) \<and>
   map_option (map fst)
     (historical_data (fst (generate_enhanced_sample_data R self g)) ''humidity'') =
     Some (year_days 2008 2023)"
  by (simp add: generate_enhanced_sample_data_def set_variable_def split_beta Let_def
      dates_enhanced_temperature dates_enhanced_precipitation dates_enhanced_wind
      dates_enhanced_humidity)

lemma year_days_span:
  "y1 \<le> y2 \<Longrightarrow> hd (year_days y1 y2) = Date y1 1 1 \<and> last (year_days y1 y2) = Date y2 12 31"
proof
  assume le: "y1 \<le> y2"
  show "hd (year_days y1 y2) = Date y1 1 1"
    using year_days_Cons[OF le] by auto
  show "last (year_days y1 y2) = Date y2 12 31"
    using year_days_snoc[OF le] by auto
qed

lemma gldas_filename:
  "lower (basename ''sample_data/GLDAS_NOAH_2020.csv'') = ''gldas_noah_2020.csv''"
  by code_simp

lemma year_days_differ: "year_days 2010 2024 \<noteq> year_days 2008 2023"
proof
  assume "year_days 2010 2024 = year_days 2008 2023"
  then have "hd (year_days 2010 2024) = hd (year_days 2008 2023)" by simp
  then show False by (simp add: year_days_span)
qed

text \<open>
  C7, as the code has it. When the data directory does not exist the loader calls the
  legacy generator, whose series run from 2010-01-01 to 2024-12-31. When the directory
  exists and loading populates no variable it calls the enhanced generator, whose series
  run from 2008-01-01 to 2023-12-31. Either generator stores all four variables,
  whatever the store held before.
\<close>

theorem load_nasa_data_fallback:
  "(\<not> fs_exists fs dir \<longrightarrow>
      NASADataProcessor fs R dir g =
        generate_sample_data R
          \<lparr>data_directory = dir, historical_data = Map.empty, data_loaded = False\<rparr> g) \<and>
   (fs_exists fs dir \<and>
    \<not> fst (load_actual_nasa_data fs
             \<lparr>data_directory = dir, historical_data = Map.empty, data_loaded = False\<rparr>) \<longrightarrow>
      NASADataProcessor fs R dir g =
        generate_enhanced_sample_data R
          \<lparr>data_directory = dir, historical_data = Map.empty, data_loaded = False\<rparr> g) \<and>
   map_option (map fst) (historical_data (fst (generate_sample_data R self g)) ''temperature'') =
     Some (year_days 2010 2024) \<and>
   map_option (map fst) (historical_data (fst (generate_sample_data R self g)) ''precipitation'') =
     Some (year_days 2010 2024) \<and>
   map_option (map fst) (historical_data (fst (generate_sample_data R self g)) ''wind'') =
     Some (year_days 2010 2024) \<and>
   map_option (map fst) (historical_data (fst (generate_sample_data R self g)) ''humidity'') =
     Some (year_days 2010 2024) \<and>
   map_option (map fst)
     (historical_data (fst (generate_enhanced_sample_data R self g)) ''temperature'') =
     Some (year_days 2008 2023) \<and>
   map_option (map fst)
     (historical_data (fst (generate_enhanced_sample_data R self g)) ''precipitation'') =
     Some (year_days 2008 2023) \<and>
   map_option (map fst)
     (historical_data (fst (generate_enhanced_sample_data R self g)) ''wind'') =
     Some (year_days 2008 2023) \<and>
   map_option (map fst)
     (historical_data (fst (generate_enhanced_sample_data R self g)) ''humidity'') =
     Some (year_days 2008 2023) \<and>
   hd (year_days 2010 2024) = Date 2010 1 1 \<and> last (year_days 2010 2024) = Date 2024 12 31 \<and>
   hd (year_days 2008 2023) = Date 2008 1 1 \<and> last (year_days 2008 2023) = Date 2023 12 31"
  using NASADataProcessor_missing_directory[of fs dir R g]
    NASADataProcessor_existing_directory[of fs dir R g]
    generate_sample_data_dates[of R self g] generate_enhanced_sample_data_dates[of R self g]
    year_days_span[of 2010 2024] year_days_span[of 2008 2023]
  by simp

theorem load_nasa_data_fallback_witness:
  "\<not> fs_exists no_directory ''sample_data'' \<and>
   NASADataProcessor no_directory fixed_rng ''sample_data'' () =
     generate_sample_data fixed_rng
       \<lparr>data_directory = ''sample_data'', historical_data = Map.empty, data_loaded = False\<rparr> () \<and>
   fs_exists gldas_directory ''sample_data'' \<and>
   load_actual_nasa_data gldas_directory
     \<lparr>data_directory = ''sample_data'', historical_data = Map.empty, data_loaded = False\<rparr> =
     (False,
      \<lparr>data_directory = ''sample_data'', historical_data = Map.empty, data_loaded = False\<rparr>) \<and>
   NASADataProcessor gldas_directory fixed_rng ''sample_data'' () =
     generate_enhanced_sample_data fixed_rng
       \<lparr>data_directory = ''sample_data'', historical_data = Map.empty, data_loaded = False\<rparr> ()"
proof -
  let ?self = "\<lparr>data_directory = ''sample_data'', historical_data = Map.empty,
                data_loaded = False\<rparr>"
  have n: "\<not> fs_exists no_directory ''sample_data''"
    by (simp add: no_directory_def)
  have x: "fs_exists gldas_directory ''sample_data''"
    by (simp add: gldas_directory_def)
  have f: "process_file ?self ''sample_data/GLDAS_NOAH_2020.csv'' = process_gldas_data ?self
      ''sample_data/GLDAS_NOAH_2020.csv''"
    by (simp add: process_file_def gldas_filename Let_def)
  have a: "load_actual_nasa_data gldas_directory ?self = (False, ?self)"
    by (simp add: load_actual_nasa_data_def gldas_directory_def path_join_def f
        process_gldas_data_def undefined_method_def Let_def)
  from a have a': "\<not> fst (load_actual_nasa_data gldas_directory ?self)" by simp
  show ?thesis
    using load_nasa_data_fallback[of no_directory "''sample_data''" fixed_rng "()"]
      load_nasa_data_fallback[of gldas_directory "''sample_data''" fixed_rng "()"] n x a a'
    by blast
qed

text \<open>
  C7, as the claim has it, fails in the first case: with no data directory the loader
  does not produce what the enhanced generator produces; its series start in 2010.
\<close>

theorem load_nasa_data_missing_directory_not_enhanced:
  "\<not> fs_exists no_directory ''sample_data'' \<and>
   NASADataProcessor no_directory fixed_rng ''sample_data'' () \<noteq>
     generate_enhanced_sample_data fixed_rng
       \<lparr>data_directory = ''sample_data'', historical_data = Map.empty, data_loaded = False\<rparr> () \<and>
   map_option (map fst)
     (historical_data (fst (NASADataProcessor no_directory fixed_rng ''sample_data'' ()))
        ''temperature'') = Some (year_days 2010 2024) \<and>
   hd (year_days 2010 2024) = Date 2010 1 1"
proof -
  let ?self = "\<lparr>data_directory = ''sample_data'', historical_data = Map.empty,
                data_loaded = False\<rparr>"
  have n: "\<not> fs_exists no_directory ''sample_data''"
    by (simp add: no_directory_def)
  have l: "NASADataProcessor no_directory fixed_rng ''sample_data'' () =
      generate_sample_data fixed_rng ?self ()"
    by (rule NASADataProcessor_missing_directory[OF n])
  have d: "map_option (map fst)
     (historical_data (fst (NASADataProcessor no_directory fixed_rng ''sample_data'' ()))
        ''temperature'') = Some (year_days 2010 2024)"
    using generate_sample_data_dates[of fixed_rng ?self "()"] by (simp add: l)
  have "NASADataProcessor no_directory fixed_rng ''sample_data'' () \<noteq>
     generate_enhanced_sample_data fixed_rng ?self ()"
  proof
    assume "NASADataProcessor no_directory fixed_rng ''sample_data'' () =
       generate_enhanced_sample_data fixed_rng ?self ()"
    with d have "map_option (map fst)
      (historical_data (fst (generate_enhanced_sample_data fixed_rng ?self ())) ''temperature'') =
        Some (year_days 2010 2024)"
      by simp
    then show False
      using generate_enhanced_sample_data_dates[of fixed_rng ?self "()"] year_days_differ
      by simp
  qed
  with n d show ?thesis by (simp add: year_days_span)
qed

end
